theory Spec2Isabelle
  imports Main
begin

section \<open>The cluster and the process state\<close>

text \<open>
  The webhook talks to the cluster through one call only,
  \<^verbatim>\<open>c.CoreV1().Namespaces().Get(ctx, name, opts)\<close>. A client is therefore modelled by what
  that call answers for a namespace name.
\<close>

datatype ns_result = NsFound | NsNotFound | NsTransportError

type_synonym kube_client = "string \<Rightarrow> ns_result"

text \<open>
  The two package-level variables \<^verbatim>\<open>clientset\<close> and \<^verbatim>\<open>initOnce\<close>, and, as a record of
  the effects of a call, the names handed to \<^verbatim>\<open>Namespaces().Get\<close> so far (oldest first).
  \<^verbatim>\<open>clientset\<close> is a pointer: \<open>None\<close> is \<^verbatim>\<open>nil\<close>.
\<close>

record proc_state =
  clientset :: "kube_client option"
  initOnce :: bool
  ns_gets :: "string list"

text \<open>
  The object carried by a request reaches the engine as a \<^verbatim>\<open>runtime.RawExtension\<close> and is
  read through \<^verbatim>\<open>unstructured.Unstructured\<close>. The engine uses four accessors of it; the
  record holds what each returns. \<^verbatim>\<open>GetLabels\<close> returns a Go map, which may be \<^verbatim>\<open>nil\<close>
  (\<open>None\<close>) when the object has no labels map.
\<close>

type_synonym label_map = "(string \<rightharpoonup> string) option"

record unstructured =
  GetKind :: string
  GetName :: string
  GetNamespace :: string
  GetLabels :: label_map

text \<open>
  What the engine takes from outside the repository: the outcome of \<^verbatim>\<open>initializeClient()\<close>
  (in-cluster configuration, kubeconfig, client construction), and the two conversions of
  \<^verbatim>\<open>k8s.io/apimachinery\<close>. \<open>Inl\<close> carries the message of the error returned.
\<close>

record ('raw, 'obj) env =
  initializeClient :: "string + kube_client"
  Convert_RawExtension_To_Object :: "'raw \<Rightarrow> string + 'obj"
  ToUnstructured :: "'obj \<Rightarrow> string + unstructured"

section \<open>Admission review, request and response\<close>

record 'raw admission_request =
  Request_UID :: string
  Request_Namespace :: string
  Request_Object :: 'raw

text \<open>\<^verbatim>\<open>AdmissionReview.Request\<close> is a pointer; \<open>None\<close> is \<^verbatim>\<open>nil\<close>.\<close>

record 'raw admission_review =
  Request :: "'raw admission_request option"

text \<open>
  \<^verbatim>\<open>AdmissionResponse\<close>: \<^verbatim>\<open>Patch\<close> is a byte slice and \<^verbatim>\<open>PatchType\<close> a pointer, both
  \<^verbatim>\<open>nil\<close> (\<open>None\<close>) unless assigned.
\<close>

record admission_response =
  Allowed :: bool
  UID :: string
  Patch :: "string option"
  PatchType :: "string option"

definition PatchTypeJSONPatch :: string where
  "PatchTypeJSONPatch = ''JSONPatch''"

text \<open>
  The errors of \<^verbatim>\<open>addLabel\<close>, one constructor for each \<^verbatim>\<open>fmt.Errorf\<close> of the function:
  "failed to get Kubernetes client", "failed to convert object", "failed to convert to
  unstructured" and "failed to fetch namespace". The two conversion failures are the
  specification's \<^verbatim>\<open>ProjectionFailed\<close>, the last is its \<^verbatim>\<open>NamespaceUnavailable\<close>, carrying the
  name looked up and the answer of the cluster. \<open>NilPointerPanic\<close> is the run-time panic of
  a dereferenced \<^verbatim>\<open>nil\<close> pointer.
\<close>

datatype engine_error =
    ClientUnavailable string
  | ConvertObjectFailed string
  | ToUnstructuredFailed string
  | NamespaceUnavailable string ns_result
  | NilPointerPanic

fun ProjectionFailed :: "engine_error \<Rightarrow> bool" where
  "ProjectionFailed (ConvertObjectFailed m) = True"
| "ProjectionFailed (ToUnstructuredFailed m) = True"
| "ProjectionFailed e = False"

section \<open>The client singleton\<close>

text \<open>
  \<^verbatim>\<open>GetKubeClient\<close>: the body of \<^verbatim>\<open>initOnce.Do\<close> runs on the first call only and assigns
  the global \<^verbatim>\<open>clientset\<close> and the local \<^verbatim>\<open>err\<close>; every later call returns the global with
  a \<^verbatim>\<open>nil\<close> error. The result is the pair \<^verbatim>\<open>(clientset, err)\<close>.
\<close>

definition GetKubeClient ::
  "('raw, 'obj) env \<Rightarrow> proc_state \<Rightarrow> (kube_client option \<times> string option) \<times> proc_state" where
  "GetKubeClient e s =
     (if initOnce s then ((clientset s, None), s)
      else (case initializeClient e of
              Inl msg \<Rightarrow> ((None, Some msg), s\<lparr>clientset := None, initOnce := True\<rparr>)
            | Inr c \<Rightarrow> ((Some c, None), s\<lparr>clientset := Some c, initOnce := True\<rparr>)))"

section \<open>Deriving the service label\<close>

text \<open>Indexing a Go map: a \<^verbatim>\<open>nil\<close> map has no keys.\<close>

fun label_lookup :: "label_map \<Rightarrow> string \<Rightarrow> string option" where
  "label_lookup None k = None"
| "label_lookup (Some m) k = m k"

definition hasLabel :: "label_map \<Rightarrow> string \<Rightarrow> bool" where
  "hasLabel labels key = (label_lookup labels key \<noteq> None)"

text \<open>
  The first \<^verbatim>\<open>switch\<close> of \<^verbatim>\<open>addLabel\<close>: the value wanted for the label, \<open>None\<close> in the
  \<^verbatim>\<open>default\<close> case, where the function returns at once.
\<close>

definition serviceVal :: "label_map \<Rightarrow> string option" where
  "serviceVal podLabels =
     (case (label_lookup podLabels ''appName'', label_lookup podLabels ''car_id'') of
        (Some appName, Some carID) \<Rightarrow> Some (appName @ ''-'' @ carID)
      | (Some appName, None) \<Rightarrow> Some appName
      | (None, Some carID) \<Rightarrow> Some carID
      | (None, None) \<Rightarrow> None)"

definition serviceLabelKey :: string where
  "serviceLabelKey = ''service''"

definition serviceLabelPath :: string where
  "serviceLabelPath = ''/metadata/labels/service''"

text \<open>
  The three raw string literals of the second \<^verbatim>\<open>switch\<close>, byte for byte: each line of a
  literal ends in a line feed and the next starts with the two tabs of the source's
  indentation.
\<close>

definition line_break :: string where
  "line_break = [CHR 0x0A, CHR 0x09, CHR 0x09]"

definition patch_labels_absent :: "string \<Rightarrow> string" where
  \<open>patch_labels_absent v =
     ''['' @ line_break @
     ''  { "op": "add", "path": "/metadata/labels", "value": {} },'' @ line_break @
     ''  { "op": "add", "path": "'' @ serviceLabelPath @ ''", "value": "'' @ v @ ''" }'' @
     line_break @ '']''\<close>

definition patch_key_absent :: "string \<Rightarrow> string" where
  \<open>patch_key_absent v =
     ''['' @ line_break @
     ''  { "op": "add", "path": "'' @ serviceLabelPath @ ''", "value": "'' @ v @ ''" }'' @
     line_break @ '']''\<close>

definition patch_key_differs :: "string \<Rightarrow> string" where
  \<open>patch_key_differs v =
     ''['' @ line_break @
     ''  { "op": "replace", "path": "'' @ serviceLabelPath @ ''", "value": "'' @ v @ ''" }'' @
     line_break @ '']''\<close>

text \<open>The second \<^verbatim>\<open>switch\<close>, in the order of its cases.\<close>

definition buildPatch :: "label_map \<Rightarrow> string \<Rightarrow> string" where
  "buildPatch podLabels v =
     (if podLabels = None then patch_labels_absent v
      else if \<not> hasLabel podLabels serviceLabelKey then patch_key_absent v
      else patch_key_differs v)"

section \<open>The engine\<close>

definition allow :: "string \<Rightarrow> admission_response" where
  "allow u = \<lparr>Allowed = True, UID = u, Patch = None, PatchType = None\<rparr>"

text \<open>The name looked up: the request's namespace, else the object's, else "default".\<close>

definition namespaceName :: "'raw admission_request \<Rightarrow> unstructured \<Rightarrow> string" where
  "namespaceName req u =
     (let n = Request_Namespace req;
          n = (if n = [] then GetNamespace u else n);
          n = (if n = [] then ''default'' else n)
      in n)"

text \<open>
  The part of \<^verbatim>\<open>addLabel\<close> after the namespace has been fetched: derive the value, return
  unchanged when there is none or when the label already holds it, else attach the patch.
\<close>

definition mutate :: "string \<Rightarrow> label_map \<Rightarrow> admission_response" where
  "mutate u podLabels =
     (case serviceVal podLabels of
        None \<Rightarrow> allow u
      | Some v \<Rightarrow>
          if label_lookup podLabels serviceLabelKey = Some v then allow u
          else (allow u)\<lparr>Patch := Some (buildPatch podLabels v),
                          PatchType := Some PatchTypeJSONPatch\<rparr>)"

text \<open>
  The projection of the request's object: the two conversions at the head of
  \<^verbatim>\<open>addLabel\<close>, each with its own error.
\<close>

definition project :: "('raw, 'obj) env \<Rightarrow> 'raw \<Rightarrow> engine_error + unstructured" where
  "project e raw =
     (case Convert_RawExtension_To_Object e raw of
        Inl msg \<Rightarrow> Inl (ConvertObjectFailed msg)
      | Inr obj \<Rightarrow>
          (case ToUnstructured e obj of
             Inl msg \<Rightarrow> Inl (ToUnstructuredFailed msg)
           | Inr u \<Rightarrow> Inr u))"

text \<open>
  \<^verbatim>\<open>addLabel\<close>, statement by statement. Every error return of the source is
  \<^verbatim>\<open>return nil, err\<close>, here \<open>Inl\<close>; the state returned holds the client singleton and the
  lookups made. Reading \<^verbatim>\<open>ar.Request.Object\<close> through a \<^verbatim>\<open>nil\<close> request, and calling
  \<^verbatim>\<open>c.CoreV1()\<close> on a \<^verbatim>\<open>nil\<close> client, panic.
\<close>

definition addLabel ::
  "('raw, 'obj) env \<Rightarrow> proc_state \<Rightarrow> 'raw admission_review \<Rightarrow>
     (engine_error + admission_response) \<times> proc_state" where
  "addLabel e s ar =
     (case GetKubeClient e s of
        ((c, Some msg), s1) \<Rightarrow> (Inl (ClientUnavailable msg), s1)
      | ((c, None), s1) \<Rightarrow>
     (case Request ar of
        None \<Rightarrow> (Inl NilPointerPanic, s1)
      | Some req \<Rightarrow>
     (case project e (Request_Object req) of
        Inl err \<Rightarrow> (Inl err, s1)
      | Inr u \<Rightarrow>
          if GetKind u \<noteq> ''Pod'' then (Inr (allow (Request_UID req)), s1)
          else
     (case c of
        None \<Rightarrow> (Inl NilPointerPanic, s1)
      | Some client \<Rightarrow>
          let n = namespaceName req u;
              s2 = s1\<lparr>ns_gets := ns_gets s1 @ [n]\<rparr>
          in (case client n of
                NsFound \<Rightarrow> (Inr (mutate (Request_UID req) (GetLabels u)), s2)
              | NsNotFound \<Rightarrow> (Inl (NamespaceUnavailable n NsNotFound), s2)
              | NsTransportError \<Rightarrow> (Inl (NamespaceUnavailable n NsTransportError), s2))))))"

section \<open>The decoder\<close>

text \<open>
  \<^verbatim>\<open>parseRequest\<close> reads the \<^verbatim>\<open>Content-Type\<close> header (\<^verbatim>\<open>Header.Get\<close>, the empty string when
  the header is missing) and decodes the body with \<^verbatim>\<open>encoding/json\<close>, which is taken as a
  parameter.
\<close>

record 'body http_request =
  Header_Content_Type :: string
  Body :: 'body

datatype decode_error = BadContentType | MalformedEnvelope string | MissingRequest

definition parseRequest ::
  "('body \<Rightarrow> string + 'raw admission_review) \<Rightarrow> 'body http_request \<Rightarrow>
     decode_error + 'raw admission_review" where
  "parseRequest Decode r =
     (if Header_Content_Type r \<noteq> ''application/json'' then Inl BadContentType
      else (case Decode (Body r) of
              Inl msg \<Rightarrow> Inl (MalformedEnvelope msg)
            | Inr ar \<Rightarrow> if Request ar = None then Inl MissingRequest else Inr ar))"

section \<open>The lookups a call makes\<close>

text \<open>
  The names a call of \<^verbatim>\<open>addLabel\<close> hands to \<^verbatim>\<open>Namespaces().Get\<close>: what the call appends to
  the record kept in the state. \<^verbatim>\<open>Get\<close> is the only method of the client the webhook calls; it
  creates, updates or deletes nothing.
\<close>

definition lookups :: "('raw, 'obj) env \<Rightarrow> proc_state \<Rightarrow> 'raw admission_review \<Rightarrow> string list" where
  "lookups e s ar = drop (length (ns_gets s)) (ns_gets (snd (addLabel e s ar)))"

section \<open>JSON texts\<close>

text \<open>
  To say what the bytes of a patch mean they are read as a JSON text (RFC 8259): first cut
  into tokens, then parsed into a value. Strings are kept as bytes. A number keeps its
  spelling.
\<close>

datatype json = JString string | JNumber string | JTrue | JFalse | JNull
  | JArray "json list" | JObject "(string \<times> json) list"

datatype jtoken = TLBracket | TRBracket | TLBrace | TRBrace | TColon | TComma | TValue json

datatype lex_mode = InText | InString string | InEscape string
  | InUnicode string "nat list" | InWord string

text \<open>
  Characters by their code: white space is space, tab, line feed and carriage return; a
  word is a run of letters, digits, signs and dots, which must spell \<^verbatim>\<open>true\<close>, \<^verbatim>\<open>false\<close>,
  \<^verbatim>\<open>null\<close> or a number.
\<close>

definition char_code :: "char \<Rightarrow> nat" where
  "char_code c = of_char c"

definition is_ws :: "char \<Rightarrow> bool" where
  "is_ws c = (c = CHR 0x20 \<or> c = CHR 0x09 \<or> c = CHR 0x0A \<or> c = CHR 0x0D)"

definition is_digit :: "char \<Rightarrow> bool" where
  "is_digit c = (48 \<le> char_code c \<and> char_code c \<le> 57)"

definition is_letter :: "char \<Rightarrow> bool" where
  "is_letter c = (65 \<le> char_code c \<and> char_code c \<le> 90 \<or> 97 \<le> char_code c \<and> char_code c \<le> 122)"

definition word_char :: "char \<Rightarrow> bool" where
  "word_char c = (is_digit c \<or> is_letter c \<or> c = CHR ''-'' \<or> c = CHR ''+'' \<or> c = CHR ''.'')"

text \<open>
  A number is an optional minus, an integer part without a leading zero, an optional
  fraction and an optional exponent.
\<close>

definition exp_part :: "string \<Rightarrow> bool" where
  "exp_part r =
     (case r of
        [] \<Rightarrow> True
      | c # r1 \<Rightarrow>
          (c = CHR ''e'' \<or> c = CHR ''E'') \<and>
          (let r2 = (case r1 of [] \<Rightarrow> [] | d # r3 \<Rightarrow> if d = CHR ''+'' \<or> d = CHR ''-'' then r3 else r1)
           in r2 \<noteq> [] \<and> list_all is_digit r2))"

definition frac_part :: "string \<Rightarrow> bool" where
  "frac_part r =
     (case r of
        [] \<Rightarrow> True
      | c # r1 \<Rightarrow>
          if c = CHR ''.'' then takeWhile is_digit r1 \<noteq> [] \<and> exp_part (dropWhile is_digit r1)
          else exp_part r)"

definition is_number :: "string \<Rightarrow> bool" where
  "is_number w =
     (let w1 = (case w of [] \<Rightarrow> [] | c # r \<Rightarrow> if c = CHR ''-'' then r else w);
          ds = takeWhile is_digit w1
      in (case ds of
            [] \<Rightarrow> False
          | d # r \<Rightarrow> (if d = CHR ''0'' then r = [] else True) \<and> frac_part (dropWhile is_digit w1)))"

definition word_token :: "string \<Rightarrow> jtoken option" where
  "word_token w =
     (if w = ''true'' then Some (TValue JTrue)
      else if w = ''false'' then Some (TValue JFalse)
      else if w = ''null'' then Some (TValue JNull)
      else if is_number w then Some (TValue (JNumber w))
      else None)"

text \<open>
  Inside a string a backslash starts an escape: one of the eight two-character escapes, or
  \<^verbatim>\<open>u\<close> and four hexadecimal digits, stored here in UTF-8 (a surrogate is stored like any
  other code point, and bytes above 127 written directly are kept as they are).
\<close>

definition simple_escape :: "char \<Rightarrow> char option" where
  "simple_escape c =
     (if c = CHR 0x22 \<or> c = CHR 0x5C \<or> c = CHR ''/'' then Some c
      else if c = CHR ''b'' then Some (CHR 0x08)
      else if c = CHR ''f'' then Some (CHR 0x0C)
      else if c = CHR ''n'' then Some (CHR 0x0A)
      else if c = CHR ''r'' then Some (CHR 0x0D)
      else if c = CHR ''t'' then Some (CHR 0x09)
      else None)"

definition hex_digit :: "char \<Rightarrow> nat option" where
  "hex_digit c =
     (if is_digit c then Some (char_code c - 48)
      else if 65 \<le> char_code c \<and> char_code c \<le> 70 then Some (char_code c - 55)
      else if 97 \<le> char_code c \<and> char_code c \<le> 102 then Some (char_code c - 87)
      else None)"

definition utf8 :: "nat \<Rightarrow> string" where
  "utf8 n =
     (if n < 0x80 then [char_of n]
      else if n < 0x800 then [char_of (0xC0 + n div 64), char_of (0x80 + n mod 64)]
      else [char_of (0xE0 + n div 4096), char_of (0x80 + n div 64 mod 64),
            char_of (0x80 + n mod 64)])"

text \<open>
  The tokenizer reads one character at a time. Between tokens it skips white space; in a
  string it stops at the closing quote, refuses control characters (codes below 32) and
  follows escapes; a word ends at the first character that cannot belong to one. The
  tokens are collected in reverse.
\<close>

definition lex_char :: "jtoken list \<Rightarrow> char \<Rightarrow> (lex_mode \<times> jtoken list) option" where
  "lex_char ts c =
     (if is_ws c then Some (InText, ts)
      else if c = CHR ''['' then Some (InText, TLBracket # ts)
      else if c = CHR '']'' then Some (InText, TRBracket # ts)
      else if c = CHR ''{'' then Some (InText, TLBrace # ts)
      else if c = CHR ''}'' then Some (InText, TRBrace # ts)
      else if c = CHR '':'' then Some (InText, TColon # ts)
      else if c = CHR '','' then Some (InText, TComma # ts)
      else if c = CHR 0x22 then Some (InString [], ts)
      else if word_char c then Some (InWord [c], ts)
      else None)"

fun lex_step :: "lex_mode \<times> jtoken list \<Rightarrow> char \<Rightarrow> (lex_mode \<times> jtoken list) option" where
  "lex_step (InText, ts) c = lex_char ts c"
| "lex_step (InString acc, ts) c =
     (if c = CHR 0x22 then Some (InText, TValue (JString (rev acc)) # ts)
      else if c = CHR 0x5C then Some (InEscape acc, ts)
      else if char_code c < 0x20 then None
      else Some (InString (c # acc), ts))"
| "lex_step (InEscape acc, ts) c =
     (if c = CHR ''u'' then Some (InUnicode acc [], ts)
      else (case simple_escape c of
              None \<Rightarrow> None
            | Some d \<Rightarrow> Some (InString (d # acc), ts)))"
| "lex_step (InUnicode acc hs, ts) c =
     (case hex_digit c of
        None \<Rightarrow> None
      | Some h \<Rightarrow>
          if length hs = 3
          then Some (InString (rev (utf8 (foldl (\<lambda>n d. 16 * n + d) 0 (hs @ [h]))) @ acc), ts)
          else Some (InUnicode acc (hs @ [h]), ts))"
| "lex_step (InWord w, ts) c =
     (if word_char c then Some (InWord (c # w), ts)
      else (case word_token (rev w) of
              None \<Rightarrow> None
            | Some t \<Rightarrow> lex_char (t # ts) c))"

primrec lex_run :: "lex_mode \<times> jtoken list \<Rightarrow> string \<Rightarrow> (lex_mode \<times> jtoken list) option" where
  "lex_run st [] = Some st"
| "lex_run st (c # cs) = (case lex_step st c of None \<Rightarrow> None | Some st' \<Rightarrow> lex_run st' cs)"

fun lex_end :: "lex_mode \<times> jtoken list \<Rightarrow> jtoken list option" where
  "lex_end (InText, ts) = Some (rev ts)"
| "lex_end (InWord w, ts) =
     (case word_token (rev w) of None \<Rightarrow> None | Some t \<Rightarrow> Some (rev (t # ts)))"
| "lex_end (m, ts) = None"

definition json_tokens :: "string \<Rightarrow> jtoken list option" where
  "json_tokens s = (case lex_run (InText, []) s of None \<Rightarrow> None | Some st \<Rightarrow> lex_end st)"

text \<open>
  The parser reads one token at a time and keeps a stack of the arrays and objects that
  are still open, with the elements and members read so far (in reverse), and a key whose
  value is awaited. A text is one value, with nothing after it.
\<close>

datatype frame = FArray "json list" | FObject "(string \<times> json) list" | FKey string

datatype expect = EValue | EValueOrClose | EKey | EKeyOrClose | EColon | ECommaOrClose
  | EDone json

fun deliver :: "json \<Rightarrow> frame list \<Rightarrow> (expect \<times> frame list) option" where
  "deliver v [] = Some (EDone v, [])"
| "deliver v (FArray xs # st) = Some (ECommaOrClose, FArray (v # xs) # st)"
| "deliver v (FKey k # FObject ms # st) = Some (ECommaOrClose, FObject ((k, v) # ms) # st)"
| "deliver v st = None"

fun open_value :: "jtoken \<Rightarrow> frame list \<Rightarrow> (expect \<times> frame list) option" where
  "open_value (TValue v) st = deliver v st"
| "open_value TLBracket st = Some (EValueOrClose, FArray [] # st)"
| "open_value TLBrace st = Some (EKeyOrClose, FObject [] # st)"
| "open_value t st = None"

fun close_array :: "frame list \<Rightarrow> (expect \<times> frame list) option" where
  "close_array (FArray xs # st) = deliver (JArray (rev xs)) st"
| "close_array st = None"

fun close_object :: "frame list \<Rightarrow> (expect \<times> frame list) option" where
  "close_object (FObject ms # st) = deliver (JObject (rev ms)) st"
| "close_object st = None"

fun read_key :: "jtoken \<Rightarrow> frame list \<Rightarrow> (expect \<times> frame list) option" where
  "read_key (TValue (JString k)) st = Some (EColon, FKey k # st)"
| "read_key t st = None"

fun next_item :: "frame list \<Rightarrow> (expect \<times> frame list) option" where
  "next_item (FArray xs # st) = Some (EValue, FArray xs # st)"
| "next_item (FObject ms # st) = Some (EKey, FObject ms # st)"
| "next_item st = None"

fun parse_step :: "expect \<times> frame list \<Rightarrow> jtoken \<Rightarrow> (expect \<times> frame list) option" where
  "parse_step (EValue, st) t = open_value t st"
| "parse_step (EValueOrClose, st) t = (if t = TRBracket then close_array st else open_value t st)"
| "parse_step (EKey, st) t = read_key t st"
| "parse_step (EKeyOrClose, st) t = (if t = TRBrace then close_object st else read_key t st)"
| "parse_step (EColon, st) t = (if t = TColon then Some (EValue, st) else None)"
| "parse_step (ECommaOrClose, st) t =
     (if t = TComma then next_item st
      else if t = TRBracket then close_array st
      else if t = TRBrace then close_object st
      else None)"
| "parse_step (EDone v, st) t = None"

primrec parse_run :: "expect \<times> frame list \<Rightarrow> jtoken list \<Rightarrow> (expect \<times> frame list) option" where
  "parse_run st [] = Some st"
| "parse_run st (t # ts) = (case parse_step st t of None \<Rightarrow> None | Some st' \<Rightarrow> parse_run st' ts)"

fun parse_end :: "expect \<times> frame list \<Rightarrow> json option" where
  "parse_end (EDone v, st) = Some v"
| "parse_end (x, st) = None"

definition json_parse :: "string \<Rightarrow> json option" where
  "json_parse s =
     (case json_tokens s of
        None \<Rightarrow> None
      | Some ts \<Rightarrow> (case parse_run (EValue, []) ts of None \<Rightarrow> None | Some st \<Rightarrow> parse_end st))"

section \<open>JSON Patch documents\<close>

text \<open>
  A JSON Patch document (RFC 6902) is an array of objects, each with exactly one member
  \<^verbatim>\<open>op\<close>, naming one of six operations, and exactly one member \<^verbatim>\<open>path\<close>, a JSON Pointer (RFC
  6901: empty, or starting with a slash, a tilde always followed by 0 or 1); \<^verbatim>\<open>add\<close>,
  \<^verbatim>\<open>replace\<close> and \<^verbatim>\<open>test\<close> need a \<^verbatim>\<open>value\<close>, \<^verbatim>\<open>move\<close> and \<^verbatim>\<open>copy\<close> a pointer \<^verbatim>\<open>from\<close>. Other
  members are ignored.
\<close>

datatype patch_operation =
    Add string json | Remove string | Replace string json
  | Move string string | Copy string string | Test string json

fun tilde_ok :: "string \<Rightarrow> bool" where
  "tilde_ok [] = True"
| "tilde_ok (c # cs) =
     (if c = CHR ''~''
      then (case cs of [] \<Rightarrow> False | d # ds \<Rightarrow> (d = CHR ''0'' \<or> d = CHR ''1'') \<and> tilde_ok ds)
      else tilde_ok cs)"

definition is_json_pointer :: "string \<Rightarrow> bool" where
  "is_json_pointer p = (case p of [] \<Rightarrow> True | c # cs \<Rightarrow> c = CHR ''/'' \<and> tilde_ok cs)"

definition members :: "string \<Rightarrow> (string \<times> json) list \<Rightarrow> json list" where
  "members k ms = map snd (filter (\<lambda>m. fst m = k) ms)"

fun the_value :: "json list \<Rightarrow> json option" where
  "the_value [v] = Some v"
| "the_value vs = None"

fun the_pointer :: "json list \<Rightarrow> string option" where
  "the_pointer [JString s] = (if is_json_pointer s then Some s else None)"
| "the_pointer vs = None"

fun the_string :: "json list \<Rightarrow> string option" where
  "the_string [JString s] = Some s"
| "the_string vs = None"

definition operation :: "string \<Rightarrow> string \<Rightarrow> (string \<times> json) list \<Rightarrow> patch_operation option" where
  "operation name p ms =
     (if name = ''add'' then map_option (Add p) (the_value (members ''value'' ms))
      else if name = ''remove'' then Some (Remove p)
      else if name = ''replace'' then map_option (Replace p) (the_value (members ''value'' ms))
      else if name = ''move'' then map_option (\<lambda>f. Move f p) (the_pointer (members ''from'' ms))
      else if name = ''copy'' then map_option (\<lambda>f. Copy f p) (the_pointer (members ''from'' ms))
      else if name = ''test'' then map_option (Test p) (the_value (members ''value'' ms))
      else None)"

fun decode_operation :: "json \<Rightarrow> patch_operation option" where
  "decode_operation (JObject ms) =
     (case the_string (members ''op'' ms) of
        None \<Rightarrow> None
      | Some name \<Rightarrow>
          (case the_pointer (members ''path'' ms) of
             None \<Rightarrow> None
           | Some p \<Rightarrow> operation name p ms))"
| "decode_operation v = None"

fun decode_operations :: "json list \<Rightarrow> patch_operation list option" where
  "decode_operations [] = Some []"
| "decode_operations (v # vs) =
     (case decode_operation v of
        None \<Rightarrow> None
      | Some x \<Rightarrow> map_option ((#) x) (decode_operations vs))"

definition decode_patch :: "string \<Rightarrow> patch_operation list option" where
  "decode_patch s =
     (case json_parse s of
        Some (JArray vs) \<Rightarrow> decode_operations vs
      | _ \<Rightarrow> None)"

text \<open>
  The documents the specification allows the webhook to emit: JSON Patch documents whose
  operations are all \<^verbatim>\<open>add\<close> or \<^verbatim>\<open>replace\<close>, at \<^verbatim>\<open>/metadata/labels\<close> or
  \<^verbatim>\<open>/metadata/labels/service\<close>.
\<close>

fun allowed_operation :: "patch_operation \<Rightarrow> bool" where
  "allowed_operation (Add p v) = (p = ''/metadata/labels'' \<or> p = ''/metadata/labels/service'')"
| "allowed_operation (Replace p v) = (p = ''/metadata/labels'' \<or> p = ''/metadata/labels/service'')"
| "allowed_operation x = False"

definition label_patch :: "string \<Rightarrow> bool" where
  "label_patch p =
     (case decode_patch p of None \<Rightarrow> False | Some ops \<Rightarrow> list_all allowed_operation ops)"


text \<open>
  A label value that can stand between two quotes as it is: no quote, no backslash, no
  control character.
\<close>

definition json_safe :: "string \<Rightarrow> bool" where
  "json_safe v = list_all (\<lambda>c. c \<noteq> CHR 0x22 \<and> c \<noteq> CHR 0x5C \<and> 0x20 \<le> char_code c) v"

section \<open>A cluster and requests to run the engine on\<close>

text \<open>
  A cluster with the namespaces "default" and "shop", one name whose lookup fails in
  transport, and no other namespace; conversions that hand the object through; a process
  that has not yet created its client, and one that has.
\<close>

definition cluster :: kube_client where
  "cluster n =
     (if n = ''default'' \<or> n = ''shop'' then NsFound
      else if n = ''unreachable'' then NsTransportError
      else NsNotFound)"

definition example_env :: "(unstructured, unstructured) env" where
  "example_env =
     \<lparr>initializeClient = Inr cluster, Convert_RawExtension_To_Object = Inr, ToUnstructured = Inr\<rparr>"

text \<open>The same environment on a machine where no client can be built.\<close>

definition failing_env :: "(unstructured, unstructured) env" where
  "failing_env =
     \<lparr>initializeClient = Inl ''failed to build kubeconfig'',
      Convert_RawExtension_To_Object = Inr, ToUnstructured = Inr\<rparr>"

definition fresh :: proc_state where
  "fresh = \<lparr>clientset = None, initOnce = False, ns_gets = []\<rparr>"

definition started :: proc_state where
  "started = \<lparr>clientset = Some cluster, initOnce = True, ns_gets = []\<rparr>"

definition object :: "string \<Rightarrow> string \<Rightarrow> label_map \<Rightarrow> unstructured" where
  "object k ns l = \<lparr>GetKind = k, GetName = ''nginx'', GetNamespace = ns, GetLabels = l\<rparr>"

definition pod :: "label_map \<Rightarrow> unstructured" where
  "pod l = object ''Pod'' [] l"

definition request :: "string \<Rightarrow> string \<Rightarrow> unstructured \<Rightarrow> unstructured admission_request" where
  "request uid ns u = \<lparr>Request_UID = uid, Request_Namespace = ns, Request_Object = u\<rparr>"

definition review :: "string \<Rightarrow> string \<Rightarrow> unstructured \<Rightarrow> unstructured admission_review" where
  "review uid ns u = \<lparr>Request = Some (request uid ns u)\<rparr>"

text \<open>
  The pod of the repository's walkthrough (\<^verbatim>\<open>nginx-test-pod.yaml\<close>), and the same pod once
  labelled.
\<close>

definition nginx_labels :: "string \<rightharpoonup> string" where
  "nginx_labels = [''appName'' \<mapsto> ''nginx'', ''car_id'' \<mapsto> ''01234'']"

definition nginx_review :: "unstructured admission_review" where
  "nginx_review = review ''uid-1'' [] (pod (Some nginx_labels))"

definition labelled_review :: "unstructured admission_review" where
  "labelled_review = review ''uid-2'' [] (pod (Some (nginx_labels(''service'' \<mapsto> ''nginx-01234''))))"

definition example_Decode :: "string \<Rightarrow> string + unstructured admission_review" where
  "example_Decode b =
     (if b = ''review'' then Inr nginx_review
      else if b = ''{}'' then Inr \<lparr>Request = None\<rparr>
      else Inl ''unexpected end of JSON input'')"

text \<open>
  Two pods whose appName holds a quote. Label values are validated by the API server only
  after the mutating webhooks have run, so the webhook can receive them.
\<close>

definition quoted_labels :: "string \<rightharpoonup> string" where
  \<open>quoted_labels = [''appName'' \<mapsto> ''ng"inx'', ''car_id'' \<mapsto> ''01234'']\<close>

definition injecting_labels :: "string \<rightharpoonup> string" where
  \<open>injecting_labels =
     [''appName'' \<mapsto> ''x" }, { "op": "remove", "path": "/spec", "was": "'', ''car_id'' \<mapsto> ''01234'']\<close>

section \<open>Reading the patch templates\<close>

text \<open>
  The tokenizer can be run on a text in pieces, and runs through a value without quote,
  backslash or control character in one step. With that each template is tokenized for an
  arbitrary such value.
\<close>

lemma lex_run_append:
  "lex_run st (xs @ ys) = (case lex_run st xs of None \<Rightarrow> None | Some st' \<Rightarrow> lex_run st' ys)"
  by (induction xs arbitrary: st) (auto split: option.splits)

lemma lex_run_safe:
  "json_safe v \<Longrightarrow> lex_run (InString acc, ts) v = Some (InString (rev v @ acc), ts)"
  by (induction v arbitrary: acc) (auto simp: json_safe_def)

lemmas lex_defs = json_tokens_def line_break_def serviceLabelPath_def lex_char_def is_ws_def
  word_char_def char_code_def lex_run_append lex_run_safe

lemma tokens_key_absent:
  assumes "json_safe v"
  shows "json_tokens (patch_key_absent v) =
    Some [TLBracket, TLBrace, TValue (JString ''op''), TColon, TValue (JString ''add''), TComma,
          TValue (JString ''path''), TColon, TValue (JString ''/metadata/labels/service''), TComma,
          TValue (JString ''value''), TColon, TValue (JString v), TRBrace, TRBracket]"
  using assms by (simp add: patch_key_absent_def lex_defs)

lemma tokens_key_differs:
  assumes "json_safe v"
  shows "json_tokens (patch_key_differs v) =
    Some [TLBracket, TLBrace, TValue (JString ''op''), TColon, TValue (JString ''replace''), TComma,
          TValue (JString ''path''), TColon, TValue (JString ''/metadata/labels/service''), TComma,
          TValue (JString ''value''), TColon, TValue (JString v), TRBrace, TRBracket]"
  using assms by (simp add: patch_key_differs_def lex_defs)

lemma tokens_labels_absent:
  assumes "json_safe v"
  shows "json_tokens (patch_labels_absent v) =
    Some [TLBracket,
          TLBrace, TValue (JString ''op''), TColon, TValue (JString ''add''), TComma,
          TValue (JString ''path''), TColon, TValue (JString ''/metadata/labels''), TComma,
          TValue (JString ''value''), TColon, TLBrace, TRBrace, TRBrace, TComma,
          TLBrace, TValue (JString ''op''), TColon, TValue (JString ''add''), TComma,
          TValue (JString ''path''), TColon, TValue (JString ''/metadata/labels/service''), TComma,
          TValue (JString ''value''), TColon, TValue (JString v), TRBrace, TRBracket]"
  using assms by (simp add: patch_labels_absent_def lex_defs)

lemmas decode_defs = decode_patch_def json_parse_def members_def operation_def is_json_pointer_def

lemma decode_key_absent:
  "json_safe v \<Longrightarrow> decode_patch (patch_key_absent v) = Some [Add ''/metadata/labels/service'' (JString v)]"
  by (simp add: decode_defs tokens_key_absent)

lemma decode_key_differs:
  "json_safe v \<Longrightarrow> decode_patch (patch_key_differs v) = Some [Replace ''/metadata/labels/service'' (JString v)]"
  by (simp add: decode_defs tokens_key_differs)

lemma decode_labels_absent:
  "json_safe v \<Longrightarrow> decode_patch (patch_labels_absent v) =
     Some [Add ''/metadata/labels'' (JObject []), Add ''/metadata/labels/service'' (JString v)]"
  by (simp add: decode_defs tokens_labels_absent)

lemma label_patch_safe: "json_safe v \<Longrightarrow> label_patch (buildPatch l v)"
  by (simp add: label_patch_def buildPatch_def decode_key_absent decode_key_differs
      decode_labels_absent)

lemma patch_key_absent_not_two: "patch_key_absent v \<noteq> patch_labels_absent w"
  by (simp add: patch_key_absent_def patch_labels_absent_def line_break_def serviceLabelPath_def)

lemma patch_key_differs_not_two: "patch_key_differs v \<noteq> patch_labels_absent w"
  by (simp add: patch_key_differs_def patch_labels_absent_def line_break_def serviceLabelPath_def)

section \<open>Facts about the engine\<close>

lemmas example_defs = cluster_def example_env_def fresh_def started_def object_def request_def
  review_def

lemmas engine_defs = addLabel_def GetKubeClient_def project_def namespaceName_def mutate_def
  allow_def serviceVal_def buildPatch_def hasLabel_def serviceLabelKey_def PatchTypeJSONPatch_def

lemmas ex_defs = example_defs pod_def nginx_labels_def nginx_review_def labelled_review_def

lemma addLabel_pod:
  assumes "GetKubeClient e s = ((Some c, None), s1)"
    and "Request ar = Some req"
    and "project e (Request_Object req) = Inr u"
    and "GetKind u = ''Pod''"
  shows "addLabel e s ar =
     (case c (namespaceName req u) of
        NsFound \<Rightarrow> Inr (mutate (Request_UID req) (GetLabels u))
      | NsNotFound \<Rightarrow> Inl (NamespaceUnavailable (namespaceName req u) NsNotFound)
      | NsTransportError \<Rightarrow> Inl (NamespaceUnavailable (namespaceName req u) NsTransportError),
      s1\<lparr>ns_gets := ns_gets s1 @ [namespaceName req u]\<rparr>)"
  using assms by (simp add: addLabel_def Let_def split: ns_result.splits)

lemma GetKubeClient_again:
  assumes "GetKubeClient e s = ((Some c, None), s1)"
  shows "GetKubeClient e (s1\<lparr>ns_gets := g\<rparr>) = ((Some c, None), s1\<lparr>ns_gets := g\<rparr>)"
  using assms by (auto simp: GetKubeClient_def split: if_splits sum.splits)

lemma GetKubeClient_ns_gets: "ns_gets (snd (GetKubeClient e s)) = ns_gets s"
  by (simp add: GetKubeClient_def split: sum.splits)

lemma mutate_allowed: "Allowed (mutate uid l) \<and> UID (mutate uid l) = uid"
  by (simp add: mutate_def allow_def split: option.splits)

lemma mutate_patch_iff:
  "(Patch (mutate uid l) \<noteq> None) =
     (serviceVal l \<noteq> None \<and> label_lookup l ''service'' \<noteq> serviceVal l)"
  by (auto simp: mutate_def allow_def serviceLabelKey_def split: option.splits)

lemma serviceVal_derivable:
  "(serviceVal l \<noteq> None) = (hasLabel l ''appName'' \<or> hasLabel l ''car_id'')"
  by (auto simp: serviceVal_def hasLabel_def split: option.splits)

lemma serviceVal_nil: "serviceVal None = None"
  by (simp add: serviceVal_def)

lemma serviceVal_after_patch:
  "serviceVal (Some (m(''service'' \<mapsto> v))) = serviceVal (Some m)"
  by (simp add: serviceVal_def)

lemma mutate_after_patch:
  "serviceVal (Some m) = Some v \<Longrightarrow> mutate uid (Some (m(''service'' \<mapsto> v))) = allow uid"
  by (simp add: mutate_def serviceVal_after_patch serviceLabelKey_def)

lemma lookups_append: "ns_gets (snd (addLabel e s ar)) = ns_gets s @ lookups e s ar"
  using GetKubeClient_ns_gets [of e s]
  by (auto simp: lookups_def addLabel_def Let_def
      split: prod.splits option.splits sum.splits ns_result.splits)


lemma mutate_labels_absent: "mutate uid None = allow uid"
  by (simp add: mutate_def serviceVal_nil)

lemma mutate_patch_cases:
  assumes "Patch (mutate uid l) = Some p"
  shows "l \<noteq> None \<and>
         (case serviceVal l of
            None \<Rightarrow> False
          | Some v \<Rightarrow> p = (if hasLabel l ''service'' then patch_key_differs v else patch_key_absent v))"
  using assms
  by (cases l)
     (auto simp: mutate_def allow_def buildPatch_def serviceLabelKey_def serviceVal_nil
       split: option.splits if_splits)

text \<open>
  A pod without a labels map has no label to read: no value is derived and the decision
  carries no patch.
\<close>

lemma absent_labels_map_no_patch:
  assumes "GetKubeClient e s = ((Some c, None), s1)"
    and "Request ar = Some req"
    and "project e (Request_Object req) = Inr u"
    and "GetKind u = ''Pod''"
    and "c (namespaceName req u) = NsFound"
    and "GetLabels u = None"
  shows "label_lookup (GetLabels u) ''appName'' = None \<and>
         label_lookup (GetLabels u) ''car_id'' = None \<and>
         serviceVal (GetLabels u) = None \<and>
         fst (addLabel e s ar) =
           Inr \<lparr>Allowed = True, UID = Request_UID req, Patch = None, PatchType = None\<rparr>"
  using assms
  by (simp add: addLabel_pod mutate_labels_absent allow_def serviceVal_nil)

text \<open>
  Whenever \<^verbatim>\<open>addLabel\<close> returns a decision with a patch, the object is a Pod whose labels
  map is not \<^verbatim>\<open>nil\<close>, and the bytes of the patch are one of the two single-operation
  templates filled with the derived value, never the two-operation template: the first
  case of the second \<^verbatim>\<open>switch\<close> is not reached, since a \<^verbatim>\<open>nil\<close> map yields no value and the
  function has returned before. When the value has no quote, backslash or control
  character the bytes read as exactly one operation.
\<close>

lemma patch_means_labels_present:
  assumes "addLabel e s ar = (Inr d, s')"
    and "Patch d = Some p"
    and "Request ar = Some req"
    and "project e (Request_Object req) = Inr u"
  shows "GetKind u = ''Pod'' \<and> GetLabels u \<noteq> None \<and>
         (case serviceVal (GetLabels u) of
            None \<Rightarrow> False
          | Some v \<Rightarrow>
              p = (if hasLabel (GetLabels u) ''service'' then patch_key_differs v
                   else patch_key_absent v) \<and>
              (json_safe v \<longrightarrow>
                 decode_patch p =
                   Some [if hasLabel (GetLabels u) ''service''
                         then Replace ''/metadata/labels/service'' (JString v)
                         else Add ''/metadata/labels/service'' (JString v)])) \<and>
         (\<forall>w. p \<noteq> patch_labels_absent w)"
proof -
  have d: "GetKind u = ''Pod'' \<and> d = mutate (Request_UID req) (GetLabels u)"
    using assms
    by (auto simp: addLabel_def allow_def Let_def
        split: prod.splits option.splits if_splits ns_result.splits)
  then have m: "Patch (mutate (Request_UID req) (GetLabels u)) = Some p"
    using assms(2) by simp
  note c = mutate_patch_cases [OF m]
  then obtain v where v: "serviceVal (GetLabels u) = Some v"
    and p: "p = (if hasLabel (GetLabels u) ''service'' then patch_key_differs v
                 else patch_key_absent v)"
    by (auto split: option.splits)
  have two: "p \<noteq> patch_labels_absent w" for w
    using p by (simp add: patch_key_absent_not_two patch_key_differs_not_two)
  show ?thesis
    using d c v p two by (simp add: decode_key_absent decode_key_differs)
qed

section \<open>The claims\<close>




text \<open>
  C2. For a Pod request that passes the namespace check, the decision carries a patch if
  and only if a value for the service label can be derived and the label does not already
  hold it; a value can be derived if and only if the pod has the label appName or the label
  car_id. So a pod with neither gets no patch, and a pod whose service label already equals
  the value gets none either. Idempotence: when the first request's labels are \<open>m\<close> and the
  derived value is \<open>v\<close>, a second request for the same pod with service set to \<open>v\<close>, made in
  the state the first call left, is allowed without a patch.
\<close>

theorem patch_iff_service_label_changes:
  assumes "GetKubeClient e s = ((Some c, None), s1)"
    and "Request ar = Some req"
    and "project e (Request_Object req) = Inr u"
    and "GetKind u = ''Pod''"
    and "c (namespaceName req u) = NsFound"
  shows "(case fst (addLabel e s ar) of
            Inl err \<Rightarrow> False
          | Inr d \<Rightarrow>
              Allowed d \<and>
              ((Patch d \<noteq> None) =
                 (serviceVal (GetLabels u) \<noteq> None \<and>
                  label_lookup (GetLabels u) ''service'' \<noteq> serviceVal (GetLabels u)))) \<and>
         ((serviceVal (GetLabels u) \<noteq> None) =
            (hasLabel (GetLabels u) ''appName'' \<or> hasLabel (GetLabels u) ''car_id'')) \<and>
         (GetLabels u = Some m \<and> serviceVal (Some m) = Some v \<and>
          Request ar2 = Some req2 \<and>
          project e (Request_Object req2) = Inr (u\<lparr>GetLabels := Some (m(''service'' \<mapsto> v))\<rparr>) \<and>
          c (namespaceName req2 u) = NsFound \<longrightarrow>
            fst (addLabel e (snd (addLabel e s ar)) ar2) =
              Inr \<lparr>Allowed = True, UID = Request_UID req2, Patch = None, PatchType = None\<rparr>)"
proof -
  let ?s2 = "s1\<lparr>ns_gets := ns_gets s1 @ [namespaceName req u]\<rparr>"
  have first: "addLabel e s ar = (Inr (mutate (Request_UID req) (GetLabels u)), ?s2)"
    using assms by (simp add: addLabel_pod)
  have a: "case fst (addLabel e s ar) of
            Inl err \<Rightarrow> False
          | Inr d \<Rightarrow>
              Allowed d \<and>
              ((Patch d \<noteq> None) =
                 (serviceVal (GetLabels u) \<noteq> None \<and>
                  label_lookup (GetLabels u) ''service'' \<noteq> serviceVal (GetLabels u)))"
    using mutate_allowed [of "Request_UID req" "GetLabels u"]
      mutate_patch_iff [of "Request_UID req" "GetLabels u"]
    by (simp add: first)
  have b: "fst (addLabel e (snd (addLabel e s ar)) ar2) =
              Inr \<lparr>Allowed = True, UID = Request_UID req2, Patch = None, PatchType = None\<rparr>"
    if h: "GetLabels u = Some m" "serviceVal (Some m) = Some v" "Request ar2 = Some req2"
      "project e (Request_Object req2) = Inr (u\<lparr>GetLabels := Some (m(''service'' \<mapsto> v))\<rparr>)"
      "c (namespaceName req2 u) = NsFound"
  proof -
    let ?u2 = "u\<lparr>GetLabels := Some (m(''service'' \<mapsto> v))\<rparr>"
    have n: "namespaceName req2 ?u2 = namespaceName req2 u"
      by (simp add: namespaceName_def Let_def)
    have "GetKubeClient e ?s2 = ((Some c, None), ?s2)"
      using assms(1) by (rule GetKubeClient_again)
    then have "addLabel e ?s2 ar2 =
        (Inr (mutate (Request_UID req2) (GetLabels ?u2)), ?s2\<lparr>ns_gets := ns_gets ?s2 @ [namespaceName req2 ?u2]\<rparr>)"
      using h assms(4) by (simp add: addLabel_pod n)
    then show ?thesis
      using h(2) by (simp add: first mutate_after_patch allow_def)
  qed
  show ?thesis
    using a b serviceVal_derivable [of "GetLabels u"] by blast
qed

theorem patch_iff_service_label_changes_witness:
  "GetKubeClient example_env fresh = ((Some cluster, None), started) \<and>
   project example_env (pod (Some nginx_labels)) = Inr (pod (Some nginx_labels)) \<and>
   GetKind (pod (Some nginx_labels)) = ''Pod'' \<and>
   cluster (namespaceName (request ''uid-1'' [] (pod (Some nginx_labels))) (pod (Some nginx_labels))) = NsFound \<and>
   serviceVal (Some nginx_labels) = Some ''nginx-01234'' \<and>
   (case fst (addLabel example_env fresh nginx_review) of
      Inl err \<Rightarrow> False | Inr d \<Rightarrow> Allowed d \<and> Patch d \<noteq> None) \<and>
   fst (addLabel example_env (snd (addLabel example_env fresh nginx_review)) labelled_review) =
     Inr \<lparr>Allowed = True, UID = ''uid-2'', Patch = None, PatchType = None\<rparr>"
  using patch_iff_service_label_changes [of example_env fresh cluster started nginx_review
      "request ''uid-1'' [] (pod (Some nginx_labels))" "pod (Some nginx_labels)"
      nginx_labels "''nginx-01234''" labelled_review
      "request ''uid-2'' [] (pod (Some (nginx_labels(''service'' \<mapsto> ''nginx-01234''))))"]
  by (simp add: ex_defs nginx_review_def labelled_review_def GetKubeClient_def project_def
      namespaceName_def serviceVal_def split: sum.splits)

text \<open>
  C3, as amended. \<^verbatim>\<open>addLabel\<close> obtains the client before it looks at the object. When that
  call returns no error and the object of the request is not of kind "Pod", the engine
  returns an allowed decision with the request's uid, no patch and no patch type, and no
  error, whatever the labels, the namespace and the answers of the cluster (the client may
  even be \<^verbatim>\<open>nil\<close>): a short-circuit. When the call returns an error, the engine returns the
  error "failed to get Kubernetes client" and no decision, for a non-Pod object too.
\<close>

theorem non_pod_passes_through:
  assumes "Request ar = Some req"
    and "project e (Request_Object req) = Inr u"
    and "GetKind u \<noteq> ''Pod''"
  shows "(GetKubeClient e s = ((c, None), s1) \<longrightarrow>
            addLabel e s ar =
              (Inr \<lparr>Allowed = True, UID = Request_UID req, Patch = None, PatchType = None\<rparr>, s1)) \<and>
         (GetKubeClient e s = ((c, Some msg), s1) \<longrightarrow>
            addLabel e s ar = (Inl (ClientUnavailable msg), s1))"
  using assms by (simp add: addLabel_def allow_def)

theorem non_pod_passes_through_witness:
  "GetKubeClient example_env fresh = ((Some cluster, None), started) \<and>
   project example_env (object ''Deployment'' ''gone'' (Some nginx_labels)) =
     Inr (object ''Deployment'' ''gone'' (Some nginx_labels)) \<and>
   GetKind (object ''Deployment'' ''gone'' (Some nginx_labels)) \<noteq> ''Pod'' \<and>
   cluster ''gone'' = NsNotFound \<and>
   addLabel example_env fresh (review ''uid-7'' ''gone'' (object ''Deployment'' ''gone'' (Some nginx_labels))) =
     (Inr \<lparr>Allowed = True, UID = ''uid-7'', Patch = None, PatchType = None\<rparr>, started) \<and>
   GetKubeClient failing_env fresh =
     ((None, Some ''failed to build kubeconfig''), fresh\<lparr>initOnce := True\<rparr>) \<and>
   addLabel failing_env fresh (review ''uid-7'' ''gone'' (object ''Deployment'' ''gone'' (Some nginx_labels))) =
     (Inl (ClientUnavailable ''failed to build kubeconfig''), fresh\<lparr>initOnce := True\<rparr>)"
  using
    non_pod_passes_through [of
      "review ''uid-7'' ''gone'' (object ''Deployment'' ''gone'' (Some nginx_labels))"
      "request ''uid-7'' ''gone'' (object ''Deployment'' ''gone'' (Some nginx_labels))"
      example_env "object ''Deployment'' ''gone'' (Some nginx_labels)"
      fresh "Some cluster" started]
    non_pod_passes_through [of
      "review ''uid-7'' ''gone'' (object ''Deployment'' ''gone'' (Some nginx_labels))"
      "request ''uid-7'' ''gone'' (object ''Deployment'' ''gone'' (Some nginx_labels))"
      failing_env "object ''Deployment'' ''gone'' (Some nginx_labels)"
      fresh None "fresh\<lparr>initOnce := True\<rparr>" "''failed to build kubeconfig''"]
  by (simp add: example_defs failing_env_def GetKubeClient_def project_def)

text \<open>
  C3 as stated fails: on the first call of a process that cannot build its client, a
  request for a Deployment gets an error and no decision.
\<close>

theorem non_pod_fails_without_client:
  "GetKind (object ''Deployment'' ''shop'' (Some nginx_labels)) \<noteq> ''Pod'' \<and>
   project failing_env (object ''Deployment'' ''shop'' (Some nginx_labels)) =
     Inr (object ''Deployment'' ''shop'' (Some nginx_labels)) \<and>
   addLabel failing_env fresh
     (review ''uid-7'' ''shop'' (object ''Deployment'' ''shop'' (Some nginx_labels))) =
     (Inl (ClientUnavailable ''failed to build kubeconfig''),
      \<lparr>clientset = None, initOnce = True, ns_gets = []\<rparr>)"
  by (simp add: example_defs failing_env_def engine_defs)

text \<open>
  C5. When the namespace lookup of a request answers NotFound or fails in transport, the
  call returns the error \<^verbatim>\<open>NamespaceUnavailable\<close> and no decision (an error return carries
  no response, hence no patch). The name looked up is the request's namespace, the object's
  namespace when that is empty, and "default" when both are empty. The lookup is made for
  Pod objects, once the client has been obtained and the object projected.
\<close>

theorem namespace_failure_aborts:
  assumes "GetKubeClient e s = ((Some c, None), s1)"
    and "Request ar = Some req"
    and "project e (Request_Object req) = Inr u"
    and "GetKind u = ''Pod''"
    and "c (namespaceName req u) \<noteq> NsFound"
  shows "addLabel e s ar =
           (Inl (NamespaceUnavailable (namespaceName req u) (c (namespaceName req u))),
            s1\<lparr>ns_gets := ns_gets s1 @ [namespaceName req u]\<rparr>) \<and>
         namespaceName req u =
           (if Request_Namespace req \<noteq> [] then Request_Namespace req
            else if GetNamespace u \<noteq> [] then GetNamespace u
            else ''default'')"
proof
  show "addLabel e s ar =
           (Inl (NamespaceUnavailable (namespaceName req u) (c (namespaceName req u))),
            s1\<lparr>ns_gets := ns_gets s1 @ [namespaceName req u]\<rparr>)"
    using assms by (cases "c (namespaceName req u)") (simp_all add: addLabel_pod)
  show "namespaceName req u =
           (if Request_Namespace req \<noteq> [] then Request_Namespace req
            else if GetNamespace u \<noteq> [] then GetNamespace u
            else ''default'')"
    by (simp add: namespaceName_def Let_def)
qed

theorem namespace_failure_aborts_witness:
  "GetKubeClient example_env fresh = ((Some cluster, None), started) \<and>
   cluster ''unreachable'' \<noteq> NsFound \<and>
   addLabel example_env fresh (review ''uid-3'' [] (object ''Pod'' ''unreachable'' (Some nginx_labels))) =
     (Inl (NamespaceUnavailable ''unreachable'' NsTransportError),
      started\<lparr>ns_gets := [''unreachable'']\<rparr>)"
  using namespace_failure_aborts [of example_env fresh cluster started
      "review ''uid-3'' [] (object ''Pod'' ''unreachable'' (Some nginx_labels))"
      "request ''uid-3'' [] (object ''Pod'' ''unreachable'' (Some nginx_labels))"
      "object ''Pod'' ''unreachable'' (Some nginx_labels)"]
  by (simp add: ex_defs GetKubeClient_def project_def namespaceName_def)

text \<open>
  C6. \<^verbatim>\<open>parseRequest\<close> fails with \<^verbatim>\<open>BadContentType\<close> when the Content-Type header is not
  exactly "application/json"; otherwise with \<^verbatim>\<open>MalformedEnvelope\<close> when the body does not
  decode; otherwise with \<^verbatim>\<open>MissingRequest\<close> when the decoded review has no request;
  otherwise it returns the decoded review. The checks are made in this order, and the
  function has a result and no effect.
\<close>

theorem parseRequest_outcomes:
  "(Header_Content_Type r \<noteq> ''application/json'' \<longrightarrow> parseRequest Decode r = Inl BadContentType) \<and>
   (Header_Content_Type r = ''application/json'' \<and> Decode (Body r) = Inl msg \<longrightarrow>
      parseRequest Decode r = Inl (MalformedEnvelope msg)) \<and>
   (Header_Content_Type r = ''application/json'' \<and> Decode (Body r) = Inr ar \<and> Request ar = None \<longrightarrow>
      parseRequest Decode r = Inl MissingRequest) \<and>
   (Header_Content_Type r = ''application/json'' \<and> Decode (Body r) = Inr ar \<and> Request ar = Some req \<longrightarrow>
      parseRequest Decode r = Inr ar)"
  by (simp add: parseRequest_def)

theorem parseRequest_outcomes_witness:
  "parseRequest example_Decode \<lparr>Header_Content_Type = ''application/json; charset=utf-8'', Body = ''review''\<rparr>
     = Inl BadContentType \<and>
   parseRequest example_Decode \<lparr>Header_Content_Type = ''application/json'', Body = ''{''\<rparr>
     = Inl (MalformedEnvelope ''unexpected end of JSON input'') \<and>
   parseRequest example_Decode \<lparr>Header_Content_Type = ''application/json'', Body = ''{}''\<rparr>
     = Inl MissingRequest \<and>
   parseRequest example_Decode \<lparr>Header_Content_Type = ''application/json'', Body = ''review''\<rparr>
     = Inr nginx_review"
  using
    parseRequest_outcomes [of "\<lparr>Header_Content_Type = ''application/json; charset=utf-8'', Body = ''review''\<rparr>" example_Decode]
    parseRequest_outcomes [of "\<lparr>Header_Content_Type = ''application/json'', Body = ''{''\<rparr>" example_Decode
       "''unexpected end of JSON input''"]
    parseRequest_outcomes [of "\<lparr>Header_Content_Type = ''application/json'', Body = ''{}''\<rparr>" example_Decode
       _ "\<lparr>Request = None\<rparr>"]
    parseRequest_outcomes [of "\<lparr>Header_Content_Type = ''application/json'', Body = ''review''\<rparr>" example_Decode
       _ nginx_review "request ''uid-1'' [] (pod (Some nginx_labels))"]
  by (simp add: example_Decode_def nginx_review_def review_def)

text \<open>
  C7. Whenever \<^verbatim>\<open>addLabel\<close> returns a decision, the decision is allowed and its uid is the
  uid of the request: no path of the engine denies.
\<close>

theorem decisions_allow_and_echo_uid:
  assumes "addLabel e s ar = (Inr d, s')"
  shows "Allowed d \<and> map_option Request_UID (Request ar) = Some (UID d)"
  using assms mutate_allowed
  by (auto simp: addLabel_def allow_def Let_def
      split: prod.splits option.splits sum.splits if_splits ns_result.splits)

theorem decisions_allow_and_echo_uid_witness:
  "addLabel example_env fresh nginx_review =
     (Inr \<lparr>Allowed = True, UID = ''uid-1'', Patch = Some (patch_key_absent ''nginx-01234''),
           PatchType = Some ''JSONPatch''\<rparr>, started\<lparr>ns_gets := [''default'']\<rparr>) \<and>
   map_option Request_UID (Request nginx_review) = Some ''uid-1''"
  using decisions_allow_and_echo_uid [of example_env fresh nginx_review
      "\<lparr>Allowed = True, UID = ''uid-1'', Patch = Some (patch_key_absent ''nginx-01234''),
           PatchType = Some ''JSONPatch''\<rparr>" "started\<lparr>ns_gets := [''default'']\<rparr>"]
  by (simp add: ex_defs nginx_review_def engine_defs)

text \<open>
  C8, as amended. A call of \<^verbatim>\<open>addLabel\<close> leaves the lookups made before it in place and adds
  at most one; the client is used for nothing but that lookup. It makes exactly one, of the
  name C5 describes, when the client has been obtained, the object projects and its kind is
  "Pod"; it makes none when the kind is not "Pod", and none when the projection fails.
\<close>

theorem lookups_of_a_call:
  "ns_gets (snd (addLabel e s ar)) = ns_gets s @ lookups e s ar \<and>
   length (lookups e s ar) \<le> 1 \<and>
   (GetKubeClient e s = ((Some c, None), s1) \<and> Request ar = Some req \<and>
    project e (Request_Object req) = Inr u \<and> GetKind u = ''Pod'' \<longrightarrow>
      lookups e s ar = [namespaceName req u]) \<and>
   (Request ar = Some req \<and> project e (Request_Object req) = Inr u \<and> GetKind u \<noteq> ''Pod'' \<longrightarrow>
      lookups e s ar = []) \<and>
   (Request ar = Some req \<and> project e (Request_Object req) = Inl err \<longrightarrow> lookups e s ar = [])"
proof -
  have keep: "ns_gets (snd (GetKubeClient e s)) = ns_gets s"
    by (rule GetKubeClient_ns_gets)
  have one: "length (lookups e s ar) \<le> 1"
    using keep
    by (auto simp: lookups_def addLabel_def Let_def
        split: prod.splits option.splits sum.splits ns_result.splits)
  have pod: "lookups e s ar = [namespaceName req u]"
    if "GetKubeClient e s = ((Some c, None), s1)" "Request ar = Some req"
      "project e (Request_Object req) = Inr u" "GetKind u = ''Pod''"
    using that keep by (simp add: lookups_def addLabel_pod)
  have other: "lookups e s ar = []"
    if "Request ar = Some req" "project e (Request_Object req) = Inr u" "GetKind u \<noteq> ''Pod''"
    using that keep
    by (auto simp: lookups_def addLabel_def split: prod.splits option.splits)
  have failed: "lookups e s ar = []"
    if "Request ar = Some req" "project e (Request_Object req) = Inl err"
    using that keep
    by (auto simp: lookups_def addLabel_def split: prod.splits option.splits)
  show ?thesis
    using lookups_append one pod other failed by blast
qed

theorem lookups_of_a_call_witness:
  "lookups example_env fresh nginx_review = [''default''] \<and>
   lookups example_env fresh (review ''uid-7'' ''shop'' (object ''Deployment'' ''shop'' (Some nginx_labels))) = [] \<and>
   lookups \<lparr>initializeClient = Inr cluster, Convert_RawExtension_To_Object = Inr,
             ToUnstructured = (\<lambda>u::unstructured. Inl ''not an object'')\<rparr> fresh nginx_review = []"
  using
    lookups_of_a_call [of example_env fresh nginx_review cluster started
      "request ''uid-1'' [] (pod (Some nginx_labels))" "pod (Some nginx_labels)"]
    lookups_of_a_call [of example_env fresh
      "review ''uid-7'' ''shop'' (object ''Deployment'' ''shop'' (Some nginx_labels))" _ _
      "request ''uid-7'' ''shop'' (object ''Deployment'' ''shop'' (Some nginx_labels))"
      "object ''Deployment'' ''shop'' (Some nginx_labels)"]
    lookups_of_a_call [of "\<lparr>initializeClient = Inr cluster, Convert_RawExtension_To_Object = Inr,
             ToUnstructured = (\<lambda>u::unstructured. Inl ''not an object'')\<rparr>" fresh nginx_review _ _
      "request ''uid-1'' [] (pod (Some nginx_labels))" _ "ToUnstructuredFailed ''not an object''"]
  by (simp add: ex_defs GetKubeClient_def project_def namespaceName_def)

text \<open>
  C8 as stated fails: a request for a Deployment is allowed without any lookup, although
  its namespace exists.
\<close>

theorem non_pod_makes_no_lookup:
  "fst (addLabel example_env started
          (review ''uid-7'' ''shop'' (object ''Deployment'' ''shop'' (Some nginx_labels)))) =
     Inr \<lparr>Allowed = True, UID = ''uid-7'', Patch = None, PatchType = None\<rparr> \<and>
   lookups example_env started
     (review ''uid-7'' ''shop'' (object ''Deployment'' ''shop'' (Some nginx_labels))) = [] \<and>
   cluster ''shop'' = NsFound"
  by (simp add: ex_defs engine_defs lookups_def)

text \<open>
  C9 does not hold of the code. The label value is spliced into the template as it is. A
  pod with appName = \<^verbatim>\<open>ng"inx\<close> and car_id = \<^verbatim>\<open>01234\<close> gets a patch that is not a JSON text; a
  pod whose appName closes the string and the object gets a patch that is a JSON Patch
  document with a second operation, a \<^verbatim>\<open>remove\<close> at \<^verbatim>\<open>/spec\<close>. Neither is a document of \<^verbatim>\<open>add\<close>
  and \<^verbatim>\<open>replace\<close> operations at the two label paths. (For values without quote, backslash and
  control character every template is such a document: \<open>label_patch_safe\<close>.)
\<close>

theorem unescaped_label_value_breaks_patch:
  \<open>fst (addLabel example_env fresh (review ''uid-9'' [] (pod (Some quoted_labels)))) =
     Inr \<lparr>Allowed = True, UID = ''uid-9'', Patch = Some (patch_key_absent ''ng"inx-01234''),
          PatchType = Some ''JSONPatch''\<rparr> \<and>
   json_parse (patch_key_absent ''ng"inx-01234'') = None \<and>
   \<not> label_patch (patch_key_absent ''ng"inx-01234'') \<and>
   fst (addLabel example_env fresh (review ''uid-9'' [] (pod (Some injecting_labels)))) =
     Inr \<lparr>Allowed = True, UID = ''uid-9'',
          Patch = Some (patch_key_absent ''x" }, { "op": "remove", "path": "/spec", "was": "-01234''),
          PatchType = Some ''JSONPatch''\<rparr> \<and>
   decode_patch (patch_key_absent ''x" }, { "op": "remove", "path": "/spec", "was": "-01234'') =
     Some [Add ''/metadata/labels/service'' (JString ''x''), Remove ''/spec''] \<and>
   \<not> label_patch (patch_key_absent ''x" }, { "op": "remove", "path": "/spec", "was": "-01234'')\<close>
proof -
  have a: \<open>json_parse (patch_key_absent ''ng"inx-01234'') = None\<close>
    by (simp add: json_parse_def patch_key_absent_def lex_defs word_token_def is_number_def
        is_digit_def)
  have b: \<open>decode_patch (patch_key_absent ''x" }, { "op": "remove", "path": "/spec", "was": "-01234'') =
     Some [Add ''/metadata/labels/service'' (JString ''x''), Remove ''/spec'']\<close>
    by (simp add: decode_defs patch_key_absent_def lex_defs)
  have c: \<open>fst (addLabel example_env fresh (review ''uid-9'' [] (pod (Some quoted_labels)))) =
     Inr \<lparr>Allowed = True, UID = ''uid-9'', Patch = Some (patch_key_absent ''ng"inx-01234''),
          PatchType = Some ''JSONPatch''\<rparr>\<close>
    by (simp add: ex_defs quoted_labels_def engine_defs)
  have d: \<open>fst (addLabel example_env fresh (review ''uid-9'' [] (pod (Some injecting_labels)))) =
     Inr \<lparr>Allowed = True, UID = ''uid-9'',
          Patch = Some (patch_key_absent ''x" }, { "op": "remove", "path": "/spec", "was": "-01234''),
          PatchType = Some ''JSONPatch''\<rparr>\<close>
    by (simp add: ex_defs injecting_labels_def engine_defs)
  show ?thesis
    using a b c d by (simp add: label_patch_def decode_patch_def)
qed

text \<open>
  C10 does not hold of the code. A decision with a patch does come from a Pod whose labels
  map is not \<^verbatim>\<open>nil\<close>, and its bytes are never those of the two-operation template
  (\<open>patch_means_labels_present\<close>). But the patch need not contain exactly one operation: the
  value is spliced into the template as it is, and for a pod whose appName closes the
  string and the object the patch returned is a JSON Patch document of two operations, an
  \<^verbatim>\<open>add\<close> at \<^verbatim>\<open>/metadata/labels/service\<close> and a \<^verbatim>\<open>remove\<close> at \<^verbatim>\<open>/spec\<close>.
\<close>

theorem injected_value_gives_two_operations:
  \<open>GetLabels (pod (Some injecting_labels)) = Some injecting_labels \<and>
   cluster ''default'' = NsFound \<and>
   fst (addLabel example_env fresh (review ''uid-10'' [] (pod (Some injecting_labels)))) =
     Inr \<lparr>Allowed = True, UID = ''uid-10'',
          Patch = Some (patch_key_absent ''x" }, { "op": "remove", "path": "/spec", "was": "-01234''),
          PatchType = Some ''JSONPatch''\<rparr> \<and>
   map_option length
     (decode_patch (patch_key_absent ''x" }, { "op": "remove", "path": "/spec", "was": "-01234'')) =
     Some 2 \<and>
   decode_patch (patch_key_absent ''x" }, { "op": "remove", "path": "/spec", "was": "-01234'') =
     Some [Add ''/metadata/labels/service'' (JString ''x''), Remove ''/spec'']\<close>
proof -
  have a: \<open>decode_patch (patch_key_absent ''x" }, { "op": "remove", "path": "/spec", "was": "-01234'') =
     Some [Add ''/metadata/labels/service'' (JString ''x''), Remove ''/spec'']\<close>
    by (simp add: decode_defs patch_key_absent_def lex_defs)
  have b: \<open>fst (addLabel example_env fresh (review ''uid-10'' [] (pod (Some injecting_labels)))) =
     Inr \<lparr>Allowed = True, UID = ''uid-10'',
          Patch = Some (patch_key_absent ''x" }, { "op": "remove", "path": "/spec", "was": "-01234''),
          PatchType = Some ''JSONPatch''\<rparr>\<close>
    by (simp add: ex_defs injecting_labels_def engine_defs)
  show ?thesis
    using a b by (simp add: ex_defs)
qed

end
